theory Spec2Isabelle
  imports Main
begin

section \<open>Data model\<close>

text \<open>
  The \<open>users\<close> collection holds one document per email. A document created by
  \<open>getOrCreateUser\<close> is the object \<open>{email, credits, isPro, createdAt}\<close>. The handlers
  read and write documents field by field, so a document is modelled by its four fields,
  each of which may be missing. The \<open>credits\<close> field is a JavaScript number or
  \<open>undefined\<close>: the code only adds and subtracts 1 and 100, so the numbers that arise
  are integers and \<open>NaN\<close>.
\<close>

datatype jsval = Undefined | NaN | Num int

text \<open>
  \<open>createdAt\<close> is a point in time, or the \<open>FieldValue.serverTimestamp()\<close> sentinel that
  the cloud function puts into the object it sends to the store.
\<close>

datatype timestamp = Time nat | ServerTimestamp

record doc =
  email :: "string option"
  credits :: jsval
  isPro :: "bool option"
  createdAt :: "timestamp option"

text \<open>The object without any of the four fields.\<close>

definition emptyDoc :: doc where
  "emptyDoc = \<lparr>email = None, credits = Undefined, isPro = None, createdAt = None\<rparr>"

subsection \<open>JavaScript operators on a balance\<close>

text \<open>\<open>x < n\<close>: \<open>undefined\<close> converts to \<open>NaN\<close>, and every comparison with \<open>NaN\<close> is false.\<close>

fun jsLess :: "jsval \<Rightarrow> int \<Rightarrow> bool" where
  "jsLess (Num a) n = (a < n)"
| "jsLess Undefined n = False"
| "jsLess NaN n = False"

text \<open>\<open>x - n\<close> and \<open>x + n\<close>: \<open>NaN\<close> unless \<open>x\<close> is a number.\<close>

fun jsSub :: "jsval \<Rightarrow> int \<Rightarrow> jsval" where
  "jsSub (Num a) n = Num (a - n)"
| "jsSub Undefined n = NaN"
| "jsSub NaN n = NaN"

fun jsAdd :: "jsval \<Rightarrow> int \<Rightarrow> jsval" where
  "jsAdd (Num a) n = Num (a + n)"
| "jsAdd Undefined n = NaN"
| "jsAdd NaN n = NaN"

text \<open>Truthiness of a balance: \<open>undefined\<close>, \<open>NaN\<close> and 0 are falsy.\<close>

fun truthy :: "jsval \<Rightarrow> bool" where
  "truthy (Num a) = (a \<noteq> 0)"
| "truthy Undefined = False"
| "truthy NaN = False"

text \<open>\<open>x || 0\<close>\<close>

definition orZero :: "jsval \<Rightarrow> jsval" where
  "orZero x = (if truthy x then x else Num 0)"

text \<open>
  \<open>FieldValue.increment(n)\<close>, applied by the store: it adds to a number and sets a field
  that is missing to \<open>n\<close>.
\<close>

fun increment :: "jsval \<Rightarrow> int \<Rightarrow> jsval" where
  "increment (Num a) n = Num (a + n)"
| "increment Undefined n = Num n"
| "increment NaN n = NaN"

subsection \<open>The store\<close>

text \<open>
  The handlers run against one of two stores. The cloud function always uses Firestore.
  The development server uses Firestore when the admin SDK initialises and otherwise the
  in-memory store \<open>mockUsers: Record<string, any> = {}\<close>.

  Firestore holds exactly the documents that were written. The in-memory store is a plain
  JavaScript object, so \<open>mockUsers[id]\<close> also finds what the object inherits: the
  properties of \<open>Object.prototype\<close>, and, once \<open>mockUsers['__proto__']\<close> has been
  assigned, the fields of the object that assignment installed as the prototype.
  \<open>own\<close> holds the documents written (the own properties), \<open>proto\<close> the installed
  prototype, if any.
\<close>

datatype backend = Firestore | MockStore

record ledger =
  backend :: backend
  own :: "string \<rightharpoonup> doc"
  proto :: "doc option"

text \<open>The property names of \<open>Object.prototype\<close>.\<close>

definition objectPrototypeKeys :: "string list" where
  "objectPrototypeKeys =
     [''constructor'', ''__defineGetter__'', ''__defineSetter__'', ''hasOwnProperty'',
      ''__lookupGetter__'', ''__lookupSetter__'', ''isPrototypeOf'',
      ''propertyIsEnumerable'', ''toString'', ''valueOf'', ''__proto__'',
      ''toLocaleString'']"

text \<open>
  Whether the installed prototype \<open>p\<close> gives \<open>mockUsers[k]\<close> a truthy value: \<open>k\<close> names
  one of its fields and the field's value is truthy.
\<close>

definition inheritedFromProto :: "doc \<Rightarrow> string \<Rightarrow> bool" where
  "inheritedFromProto p k =
     ((k = ''credits'' \<and> truthy (credits p)) \<or>
      (k = ''isPro'' \<and> isPro p = Some True) \<or>
      (k = ''email'' \<and> (case email p of None \<Rightarrow> False | Some a \<Rightarrow> a \<noteq> [])) \<or>
      (k = ''createdAt'' \<and> (case createdAt p of None \<Rightarrow> False | Some t \<Rightarrow> True)))"

text \<open>
  What \<open>get()\<close> on the document reference yields. \<open>Absent\<close>: \<open>doc.exists\<close> is false.
  \<open>Stored d\<close>: the document exists and \<open>doc.data()\<close> is the object \<open>d\<close>.
  \<open>InheritedValue\<close>: in the in-memory store, \<open>mockUsers[id]\<close> is a truthy value that is
  not a document (a function or the object \<open>Object.prototype\<close>, or a number or boolean
  taken from the installed prototype); \<open>exists: !!mockUsers[id]\<close> is true, every field
  read from \<open>doc.data()\<close> is \<open>undefined\<close>, and spreading it copies no field.
\<close>

datatype snapshot = Absent | Stored doc | InheritedValue

definition getDoc :: "ledger \<Rightarrow> string \<Rightarrow> snapshot" where
  "getDoc s k =
     (case own s k of
        Some d \<Rightarrow> Stored d
      | None \<Rightarrow>
          (case backend s of
             Firestore \<Rightarrow> Absent
           | MockStore \<Rightarrow>
               if k = ''__proto__''
               then (case proto s of None \<Rightarrow> InheritedValue | Some p \<Rightarrow> Stored p)
               else if (case proto s of None \<Rightarrow> False | Some p \<Rightarrow> inheritedFromProto p k)
               then InheritedValue
               else if k \<in> set objectPrototypeKeys then InheritedValue
               else Absent))"

text \<open>The fields the handlers read from \<open>doc.data()\<close> of an existing document.\<close>

definition docData :: "snapshot \<Rightarrow> doc" where
  "docData snap = (case snap of Stored d \<Rightarrow> d | Absent \<Rightarrow> emptyDoc | InheritedValue \<Rightarrow> emptyDoc)"

text \<open>\<open>doc.exists\<close>\<close>

definition docExists :: "snapshot \<Rightarrow> bool" where
  "docExists snap = (case snap of Absent \<Rightarrow> False | Stored d \<Rightarrow> True | InheritedValue \<Rightarrow> True)"

text \<open>
  Storing the object \<open>d\<close> under \<open>k\<close>: Firestore's \<open>set\<close>, and \<open>mockUsers[k] = d\<close>, which
  for \<open>k = '__proto__'\<close> installs \<open>d\<close> as the prototype instead of creating a property.
  An \<open>update\<close> of an existing document with some fields is \<open>writeDoc\<close> of the document
  with those fields replaced (\<open>{...mockUsers[id], ...data}\<close>).
\<close>

definition writeDoc :: "ledger \<Rightarrow> string \<Rightarrow> doc \<Rightarrow> ledger" where
  "writeDoc s k d =
     (if backend s = MockStore \<and> k = ''__proto__'' \<and> own s k = None
      then s\<lparr>proto := Some d\<rparr>
      else s\<lparr>own := (own s)(k \<mapsto> d)\<rparr>)"

subsection \<open>Errors and responses\<close>

text \<open>
  A thrown \<open>Error\<close> is represented by its \<open>message\<close>, since the handlers decide on the
  message text. A computation that may throw returns \<open>Inl message\<close>.
\<close>

type_synonym js_error = string

text \<open>
  What \<open>getOrCreateUser\<close> returns: a document object, or the inherited value that the
  in-memory store reported as the document.
\<close>

datatype userdata = DocData doc | InheritedData

text \<open>What a handler passes to \<open>res.json\<close>, and the HTTP status it sets (200 when unset).\<close>

datatype json =
    Message string
  | ErrorText string
  | UserData userdata
  | Credits jsval
  | Generated string jsval
  | PromptText string jsval
  | Capture bool string

record response =
  status :: nat
  json :: json

text \<open>\<open>res.status(c).json(b)\<close>\<close>

definition respond :: "nat \<Rightarrow> json \<Rightarrow> response" where
  "respond c b = \<lparr>status = c, json = b\<rparr>"

text \<open>
  JavaScript truthiness of a request field or environment variable that is a string or
  absent: \<open>undefined\<close> and the empty string are falsy. Request fields are modelled as
  strings, the absent field as the empty string.
\<close>

definition falsy :: "string \<Rightarrow> bool" where
  "falsy s = (s = [])"

text \<open>\<open>error.message || 'Internal Server Error'\<close>\<close>

definition messageOrDefault :: "js_error \<Rightarrow> string" where
  "messageOrDefault m = (if falsy m then ''Internal Server Error'' else m)"

text \<open>\<open>String.prototype.includes\<close>, by its definition: some suffix starts with the needle.\<close>

fun startsWith :: "string \<Rightarrow> string \<Rightarrow> bool" where
  "startsWith s [] = True"
| "startsWith [] (c # cs) = False"
| "startsWith (x # xs) (c # cs) = (x = c \<and> startsWith xs cs)"

fun includes_js :: "string \<Rightarrow> string \<Rightarrow> bool" where
  "includes_js [] sub = (sub = [])"
| "includes_js (x # xs) sub = (startsWith (x # xs) sub \<or> includes_js xs sub)"

section \<open>Ledger operations\<close>

text \<open>
  \<open>getOrCreateUser\<close> of the development server: read the document; if it does not exist,
  store the default account and return it, otherwise return \<open>doc.data()\<close>. \<open>now\<close> is
  \<open>new Date()\<close>.
\<close>

definition newUser :: "string \<Rightarrow> nat \<Rightarrow> doc" where
  "newUser e now =
     \<lparr>email = Some e, credits = Num 5, isPro = Some False, createdAt = Some (Time now)\<rparr>"

definition getOrCreateUser :: "ledger \<Rightarrow> string \<Rightarrow> nat \<Rightarrow> ledger \<times> userdata" where
  "getOrCreateUser s e now =
     (case getDoc s e of
        Absent \<Rightarrow> (writeDoc s e (newUser e now), DocData (newUser e now))
      | Stored d \<Rightarrow> (s, DocData d)
      | InheritedValue \<Rightarrow> (s, InheritedData))"

text \<open>
  \<open>getOrCreateUser\<close> of the cloud function: the object it builds and returns carries the
  \<open>serverTimestamp()\<close> sentinel as \<open>createdAt\<close>; the store replaces the sentinel by the
  time of the write, \<open>now\<close>, in the document it keeps.
\<close>

definition apiGetOrCreateUser :: "ledger \<Rightarrow> string \<Rightarrow> nat \<Rightarrow> ledger \<times> userdata" where
  "apiGetOrCreateUser s e now =
     (case getDoc s e of
        Absent \<Rightarrow>
          (writeDoc s e (newUser e now),
           DocData ((newUser e now)\<lparr>createdAt := Some ServerTimestamp\<rparr>))
      | Stored d \<Rightarrow> (s, DocData d)
      | InheritedValue \<Rightarrow> (s, InheritedData))"

text \<open>
  The deduction transaction, as written in \<open>handleDeductCredit\<close> (with \<open>amount = 1\<close>) and
  repeated in the three generation handlers: the body of the callback given to
  \<open>db.runTransaction\<close>, run on its own. It returns the updated collection and
  \<open>newCredits\<close>. \<open>!data\<close> is false for every existing document.
\<close>

definition deductTransaction :: "ledger \<Rightarrow> string \<Rightarrow> int \<Rightarrow> js_error + (ledger \<times> jsval)" where
  "deductTransaction s e amount =
     (let snap = getDoc s e in
      if \<not> docExists snap then Inl ''User not found''
      else (let data = docData snap in
            if jsLess (credits data) amount then Inl ''Insufficient credits''
            else (let newCredits = jsSub (credits data) amount
                  in Inr (writeDoc s e (data\<lparr>credits := newCredits\<rparr>), newCredits))))"

text \<open>The refund transaction of \<open>handleRefundCredit\<close> (with \<open>amount = 1\<close>).\<close>

definition refundTransaction :: "ledger \<Rightarrow> string \<Rightarrow> int \<Rightarrow> js_error + (ledger \<times> jsval)" where
  "refundTransaction s e amount =
     (let snap = getDoc s e in
      if \<not> docExists snap then Inl ''User not found''
      else (let data = docData snap;
                newCredits = jsAdd (credits data) amount
            in Inr (writeDoc s e (data\<lparr>credits := newCredits\<rparr>), newCredits)))"

text \<open>
  The transaction of \<open>handleCapturePayPalOrder\<close>: it updates whatever the store reports as
  existing, with \<open>(data.credits || 0) + 100\<close> and \<open>isPro: true\<close>.
\<close>

definition grantTransaction :: "ledger \<Rightarrow> string \<Rightarrow> ledger" where
  "grantTransaction s e =
     (let snap = getDoc s e in
      if docExists snap
      then (let data = docData snap
            in writeDoc s e
                 (data\<lparr>credits := jsAdd (orZero (credits data)) 100, isPro := Some True\<rparr>))
      else s)"

section \<open>Request handlers\<close>

text \<open>
  A request carries its HTTP method and the body or query fields the handlers read.
  \<open>amountField\<close> is the \<open>amount\<close> the client sends to the credit endpoints; the handlers
  never read it.
\<close>

record request =
  httpMethod :: string
  reqEmail :: string
  amountField :: int
  orderID :: string
  theme :: string
  prompt :: string

text \<open>A handler returns its response together with the collection it leaves behind.\<close>

definition handleGetUser :: "ledger \<Rightarrow> nat \<Rightarrow> request \<Rightarrow> response \<times> ledger" where
  "handleGetUser s now req =
     (if httpMethod req \<noteq> ''GET'' then (respond 405 (Message ''Method Not Allowed''), s)
      else if falsy (reqEmail req) then (respond 400 (Message ''Email is required''), s)
      else (case getOrCreateUser s (reqEmail req) now of
              (s', userData) \<Rightarrow> (respond 200 (UserData userData), s')))"

text \<open>The route \<open>GET /api/user\<close> of the cloud function.\<close>

definition apiGetUser :: "ledger \<Rightarrow> nat \<Rightarrow> request \<Rightarrow> response \<times> ledger" where
  "apiGetUser s now req =
     (if falsy (reqEmail req) then (respond 400 (Message ''Email is required''), s)
      else (case apiGetOrCreateUser s (reqEmail req) now of
              (s', userData) \<Rightarrow> (respond 200 (UserData userData), s')))"

definition handleDeductCredit :: "ledger \<Rightarrow> request \<Rightarrow> response \<times> ledger" where
  "handleDeductCredit s req =
     (if httpMethod req \<noteq> ''POST'' then (respond 405 (Message ''Method Not Allowed''), s)
      else let amount = 1 in
        if falsy (reqEmail req) then (respond 400 (Message ''Email is required''), s)
        else (case deductTransaction s (reqEmail req) amount of
                Inr (s', newCredits) \<Rightarrow> (respond 200 (Credits newCredits), s')
              | Inl msg \<Rightarrow>
                  (let statusCode = (if msg = ''Insufficient credits'' then 403 else 500)
                   in (respond statusCode (Message (messageOrDefault msg)), s))))"

definition handleRefundCredit :: "ledger \<Rightarrow> request \<Rightarrow> response \<times> ledger" where
  "handleRefundCredit s req =
     (if httpMethod req \<noteq> ''POST'' then (respond 405 (Message ''Method Not Allowed''), s)
      else let amount = 1 in
        if falsy (reqEmail req) then (respond 400 (Message ''Email is required''), s)
        else (case refundTransaction s (reqEmail req) amount of
                Inr (s', newCredits) \<Rightarrow> (respond 200 (Credits newCredits), s')
              | Inl msg \<Rightarrow> (respond 500 (Message (messageOrDefault msg)), s)))"

text \<open>
  The PayPal side of \<open>handleCapturePayPalOrder\<close>. The environment holds the two credential
  variables (empty when unset), the answer of the token endpoint and, for an access token
  and an order id, what the capture call yields: a thrown error or \<open>captureData.status\<close>.
\<close>

datatype http_reply = FetchThrows js_error | NotOk string | Ok string

record paypal_env =
  PAYPAL_CLIENT_ID :: string
  PAYPAL_CLIENT_SECRET :: string
  tokenReply :: http_reply
  captureOrder :: "string \<Rightarrow> string \<Rightarrow> js_error + string"

definition generatePayPalAccessToken :: "paypal_env \<Rightarrow> js_error + string" where
  "generatePayPalAccessToken env =
     (if falsy (PAYPAL_CLIENT_ID env) \<or> falsy (PAYPAL_CLIENT_SECRET env)
      then Inl ''PayPal credentials are not configured.''
      else (case tokenReply env of
              FetchThrows msg \<Rightarrow> Inl msg
            | NotOk errorData \<Rightarrow> Inl (''Failed to generate Access Token: '' @ errorData)
            | Ok access_token \<Rightarrow> Inr access_token))"

definition handleCapturePayPalOrder ::
  "ledger \<Rightarrow> paypal_env \<Rightarrow> request \<Rightarrow> response \<times> ledger" where
  "handleCapturePayPalOrder s env req =
     (if httpMethod req \<noteq> ''POST'' then (respond 405 (Message ''Method Not Allowed''), s)
      else if falsy (orderID req) \<or> falsy (reqEmail req)
        then (respond 400 (Message ''Missing orderID or email''), s)
      else (case generatePayPalAccessToken env of
              Inl msg \<Rightarrow> (respond 500 (ErrorText msg), s)
            | Inr accessToken \<Rightarrow>
                (case captureOrder env accessToken (orderID req) of
                   Inl msg \<Rightarrow> (respond 500 (ErrorText msg), s)
                 | Inr captureStatus \<Rightarrow>
                     if captureStatus = ''COMPLETED''
                     then (respond 200 (Capture True captureStatus),
                           grantTransaction s (reqEmail req))
                     else (respond 400 (Capture False captureStatus), s))))"

section \<open>Metered generation\<close>

text \<open>
  The generation provider is external. A call either throws an error (a provider error, a
  timeout, a network failure: all arrive as an \<open>Error\<close> with some message) or returns a
  response. Of a response the handlers read \<open>candidates[0].content.parts\<close>, each part
  with or without \<open>inlineData\<close>, and \<open>text\<close>.
\<close>

datatype part = TextPart string | InlineData string string

type_synonym candidate = "part list option"

record gen_response =
  candidates :: "candidate list"
  responseText :: string

datatype provider_result = ProviderThrows js_error | ProviderReturns gen_response

text \<open>
  The environment of a generation handler: the API key variables (empty when unset), the
  provider's behaviour for a model name and contents, and whether the storage call made by
  the compensating refund throws.
\<close>

record gen_env =
  GEMINI_API_KEY :: string
  API_KEY :: string
  generateContent :: "string \<Rightarrow> string \<Rightarrow> provider_result"
  refundThrows :: bool

text \<open>
  What a generation handler leaves behind: its response, the collection, and the contents
  of every call it made to the provider, in order.
\<close>

record outcome =
  reply :: response
  store :: ledger
  providerCalls :: "string list"

text \<open>The extraction loop: the first part that has \<open>inlineData\<close> gives the data URL.\<close>

fun firstInline :: "part list \<Rightarrow> string option" where
  "firstInline [] = None"
| "firstInline (TextPart t # ps) = firstInline ps"
| "firstInline (InlineData mimeType d # ps) = Some (''data:'' @ mimeType @ '';base64,'' @ d)"

definition extractImage :: "candidate list \<Rightarrow> string option" where
  "extractImage cs =
     (case cs of
        [] \<Rightarrow> None
      | c # _ \<Rightarrow> (case c of None \<Rightarrow> None | Some ps \<Rightarrow> firstInline ps))"

text \<open>
  \<open>finalUserDoc.data()?.credits || 0\<close>: \<open>undefined\<close> for a document that does not exist,
  hence 0.
\<close>

definition currentCredits :: "ledger \<Rightarrow> string \<Rightarrow> jsval" where
  "currentCredits s e = orZero (credits (docData (getDoc s e)))"

subsection \<open>\<open>handleGenerateBackground\<close> of the development server\<close>

text \<open>
  The \<open>try\<close> block: either a thrown message or the success response, with the collection
  and the provider calls made so far.
\<close>

definition tryGenerateBackground ::
  "ledger \<Rightarrow> gen_env \<Rightarrow> request \<Rightarrow> (js_error + response) \<times> ledger \<times> string list" where
  "tryGenerateBackground s env req =
     (case deductTransaction s (reqEmail req) 1 of
        Inl msg \<Rightarrow> (Inl msg, s, [])
      | Inr (s1, _) \<Rightarrow>
          (let apiKey = (if falsy (GEMINI_API_KEY env) then API_KEY env else GEMINI_API_KEY env)
           in if falsy apiKey then (Inl ''API Key not found'', s1, [])
              else (case generateContent env ''gemini-2.5-flash-image'' (prompt req) of
                      ProviderThrows msg \<Rightarrow> (Inl msg, s1, [prompt req])
                    | ProviderReturns resp \<Rightarrow>
                        (case extractImage (candidates resp) of
                           None \<Rightarrow> (Inl ''AI returned no image'', s1, [prompt req])
                         | Some imageUrl \<Rightarrow>
                             (Inr (respond 200
                                (Generated imageUrl (currentCredits s1 (reqEmail req)))),
                              s1, [prompt req])))))"

text \<open>
  The refund inside the \<open>catch\<close> block: read the document and, if it exists, write
  \<open>(credits || 0) + 1\<close>. An error thrown by either storage call is caught and logged.
\<close>

definition refundIfExists :: "ledger \<Rightarrow> gen_env \<Rightarrow> string \<Rightarrow> ledger" where
  "refundIfExists s env e =
     (if refundThrows env then s
      else (let snap = getDoc s e in
            if docExists snap
            then (let data = docData snap
                  in writeDoc s e (data\<lparr>credits := jsAdd (orZero (credits data)) 1\<rparr>))
            else s))"

text \<open>The condition under which the \<open>catch\<close> block attempts the refund.\<close>

definition refundCondition :: "js_error \<Rightarrow> bool" where
  "refundCondition msg = (msg = ''AI returned no image'' \<or> includes_js msg ''GoogleGenAI'')"

definition catchGenerateBackground ::
  "ledger \<Rightarrow> gen_env \<Rightarrow> string \<Rightarrow> js_error \<Rightarrow> response \<times> ledger" where
  "catchGenerateBackground s env e msg =
     (let s' = (if refundCondition msg then refundIfExists s env e else s);
          statusCode = (if msg = ''Insufficient credits'' then 403 else 500)
      in (respond statusCode (Message (messageOrDefault msg)), s'))"

definition handleGenerateBackground :: "ledger \<Rightarrow> gen_env \<Rightarrow> request \<Rightarrow> outcome" where
  "handleGenerateBackground s env req =
     (if httpMethod req \<noteq> ''POST''
        then \<lparr>reply = respond 405 (Message ''Method Not Allowed''), store = s,
              providerCalls = []\<rparr>
      else if falsy (prompt req) \<or> falsy (reqEmail req)
        then \<lparr>reply = respond 400 (Message ''Prompt and Email are required''), store = s,
              providerCalls = []\<rparr>
      else (case tryGenerateBackground s env req of
              (Inr res, s1, calls) \<Rightarrow> \<lparr>reply = res, store = s1, providerCalls = calls\<rparr>
            | (Inl msg, s1, calls) \<Rightarrow>
                (case catchGenerateBackground s1 env (reqEmail req) msg of
                   (res, s2) \<Rightarrow> \<lparr>reply = res, store = s2, providerCalls = calls\<rparr>)))"

subsection \<open>\<open>handleGeneratePrompt\<close> of the development server\<close>

definition promptInstruction :: "string \<Rightarrow> string" where
  "promptInstruction th =
     ''You are an expert AI image prompt engineer. Generate a highly detailed, hyper-realistic image generation prompt for an outdoor clothing brand banner. ''
     @ [CHR 0x0A] @ ''The theme is: '' @ th @ ''.''
     @ [CHR 0x0A] @ ''CRITICAL REQUIREMENT: The prompt MUST specify that the main subject (a person wearing outdoor gear) is positioned on the extreme RIGHT third of the frame, leaving the left two-thirds completely empty/clear for text placement.''
     @ [CHR 0x0A] @ ''The prompt should describe the lighting, atmosphere, and camera style (high-end retail photography).''
     @ [CHR 0x0A] @ ''Do not include any conversational text, just the prompt itself.''"

text \<open>
  The handler has no refund: its \<open>catch\<close> block answers 500 with the message. The success
  response reads \<open>doc.data().credits\<close>, which throws a \<open>TypeError\<close> on a missing document.
\<close>

definition handleGeneratePrompt :: "ledger \<Rightarrow> gen_env \<Rightarrow> request \<Rightarrow> outcome" where
  "handleGeneratePrompt s env req =
     (if httpMethod req \<noteq> ''POST''
        then \<lparr>reply = respond 405 (Message ''Method Not Allowed''), store = s,
              providerCalls = []\<rparr>
      else if falsy (theme req) \<or> falsy (reqEmail req)
        then \<lparr>reply = respond 400 (Message ''Theme and Email are required''), store = s,
              providerCalls = []\<rparr>
      else (case deductTransaction s (reqEmail req) 1 of
              Inl msg \<Rightarrow>
                \<lparr>reply = respond 500 (Message (messageOrDefault msg)), store = s,
                 providerCalls = []\<rparr>
            | Inr (s1, _) \<Rightarrow>
                (let apiKey = (if falsy (GEMINI_API_KEY env) then API_KEY env
                               else GEMINI_API_KEY env)
                 in if falsy apiKey
                    then \<lparr>reply = respond 500 (Message ''API Key not found''), store = s1,
                          providerCalls = []\<rparr>
                    else (case generateContent env ''gemini-3-flash-preview''
                                 (promptInstruction (theme req)) of
                            ProviderThrows msg \<Rightarrow>
                              \<lparr>reply = respond 500 (Message (messageOrDefault msg)),
                               store = s1,
                               providerCalls = [promptInstruction (theme req)]\<rparr>
                          | ProviderReturns resp \<Rightarrow>
                              (let snap = getDoc s1 (reqEmail req) in
                               if docExists snap
                               then \<lparr>reply = respond 200
                                       (PromptText (responseText resp)
                                          (credits (docData snap))),
                                     store = s1,
                                     providerCalls = [promptInstruction (theme req)]\<rparr>
                               else \<lparr>reply = respond 500 (Message
                                       (''Cannot read properties of undefined (reading ''
                                        @ [CHR 0x27] @ ''credits'' @ [CHR 0x27] @ '')'')),
                                     store = s1,
                                     providerCalls = [promptInstruction (theme req)]\<rparr>)))))"

subsection \<open>The cloud function route \<open>POST /api/generate-background\<close>\<close>

definition backgroundPrompt :: "string \<Rightarrow> string" where
  "backgroundPrompt th =
     ''Hyper-realistic, high-fidelity professional photography of a man wearing a high-performance waterproof outdoor jacket walking on a scenic mountain trek trail. ''
     @ [CHR 0x0A] @ ''      CRITICAL COMPOSITION: The man MUST be positioned on the extreme RIGHT third of the frame. ''
     @ [CHR 0x0A] @ ''      The left two-thirds of the image MUST remain clear of any major subjects to allow for text placement.''
     @ [CHR 0x0A] @ ''      Theme: '' @ th @ ''. ''
     @ [CHR 0x0A] @ ''      Atmosphere: Bright natural daylight, cinematic lighting, sharp crisp details, vibrant colors. ''
     @ [CHR 0x0A] @ ''      Style: High-end retail brand photography for an outdoor gear company. ''
     @ [CHR 0x0A] @ ''      No text, no watermarks, no logos in the image. Masterpiece quality.''"

definition tryApiGenerateBackground ::
  "ledger \<Rightarrow> gen_env \<Rightarrow> request \<Rightarrow> (js_error + response) \<times> ledger \<times> string list" where
  "tryApiGenerateBackground s env req =
     (case deductTransaction s (reqEmail req) 1 of
        Inl msg \<Rightarrow> (Inl msg, s, [])
      | Inr (s1, _) \<Rightarrow>
          (case generateContent env ''gemini-2.5-flash-image'' (backgroundPrompt (theme req)) of
             ProviderThrows msg \<Rightarrow> (Inl msg, s1, [backgroundPrompt (theme req)])
           | ProviderReturns resp \<Rightarrow>
               (case extractImage (candidates resp) of
                  None \<Rightarrow> (Inl ''AI returned no image'', s1, [backgroundPrompt (theme req)])
                | Some imageUrl \<Rightarrow>
                    (Inr (respond 200
                       (Generated imageUrl (currentCredits s1 (reqEmail req)))),
                     s1, [backgroundPrompt (theme req)]))))"

text \<open>
  The refund of the cloud function: \<open>userRef.update({credits: increment(1)})\<close>. Updating
  a missing document throws, as a storage fault does; both are caught and logged.
\<close>

definition refundIncrement :: "ledger \<Rightarrow> gen_env \<Rightarrow> string \<Rightarrow> ledger" where
  "refundIncrement s env e =
     (if refundThrows env then s
      else (let snap = getDoc s e in
            if docExists snap
            then (let data = docData snap
                  in writeDoc s e (data\<lparr>credits := increment (credits data) 1\<rparr>))
            else s))"

text \<open>The refund condition of the cloud function.\<close>

definition apiRefundCondition :: "js_error \<Rightarrow> bool" where
  "apiRefundCondition msg = (includes_js msg ''AI'' \<or> includes_js msg ''GoogleGenAI'')"

definition catchApiGenerateBackground ::
  "ledger \<Rightarrow> gen_env \<Rightarrow> string \<Rightarrow> js_error \<Rightarrow> response \<times> ledger" where
  "catchApiGenerateBackground s env e msg =
     (let s' = (if apiRefundCondition msg then refundIncrement s env e else s);
          statusCode = (if msg = ''Insufficient credits'' then 403 else 500)
      in (respond statusCode (Message (messageOrDefault msg)), s'))"

definition apiGenerateBackground :: "ledger \<Rightarrow> gen_env \<Rightarrow> request \<Rightarrow> outcome" where
  "apiGenerateBackground s env req =
     (if falsy (theme req) \<or> falsy (reqEmail req)
        then \<lparr>reply = respond 400 (Message ''Theme and Email are required''), store = s,
              providerCalls = []\<rparr>
      else if falsy (API_KEY env)
        then \<lparr>reply = respond 500 (Message ''Server misconfiguration: API Key missing''),
              store = s, providerCalls = []\<rparr>
      else (case tryApiGenerateBackground s env req of
              (Inr res, s1, calls) \<Rightarrow> \<lparr>reply = res, store = s1, providerCalls = calls\<rparr>
            | (Inl msg, s1, calls) \<Rightarrow>
                (case catchApiGenerateBackground s1 env (reqEmail req) msg of
                   (res, s2) \<Rightarrow> \<lparr>reply = res, store = s2, providerCalls = calls\<rparr>)))"

subsection \<open>Provider failure\<close>

text \<open>
  The two ways the provider step of a background handler fails, and the message the
  \<open>catch\<close> block then sees: the call throws, or the response yields no image and the
  handler throws "AI returned no image". \<open>None\<close> means a usable image came back.
\<close>

definition failureMessage :: "provider_result \<Rightarrow> js_error option" where
  "failureMessage r =
     (case r of
        ProviderThrows msg \<Rightarrow> Some msg
      | ProviderReturns resp \<Rightarrow>
          (case extractImage (candidates resp) of
             None \<Rightarrow> Some ''AI returned no image''
           | Some imageUrl \<Rightarrow> None))"

section \<open>Invariant of the ledger\<close>

text \<open>\<open>credits >= 0\<close>, which is false for \<open>undefined\<close> and \<open>NaN\<close>.\<close>

fun nonneg :: "jsval \<Rightarrow> bool" where
  "nonneg (Num a) = (0 \<le> a)"
| "nonneg Undefined = False"
| "nonneg NaN = False"

text \<open>Every object the store holds has a balance \<open>>= 0\<close>.\<close>

definition ledger_nonneg :: "ledger \<Rightarrow> bool" where
  "ledger_nonneg s =
     ((\<forall>k. case own s k of None \<Rightarrow> True | Some d \<Rightarrow> nonneg (credits d)) \<and>
      (case proto s of None \<Rightarrow> True | Some p \<Rightarrow> nonneg (credits p)))"

section \<open>Sample data\<close>

text \<open>
  A store without documents; the account of \<open>a@x.com\<close> with a given balance; a store that
  holds just that account; and requests made in its name.
\<close>

definition emptyLedger :: "backend \<Rightarrow> ledger" where
  "emptyLedger b = \<lparr>backend = b, own = Map.empty, proto = None\<rparr>"

definition sampleAccount :: "int \<Rightarrow> doc" where
  "sampleAccount c =
     \<lparr>email = Some ''a@x.com'', credits = Num c, isPro = Some False, createdAt = Some (Time 0)\<rparr>"

definition sampleLedger :: "backend \<Rightarrow> int \<Rightarrow> ledger" where
  "sampleLedger b c = \<lparr>backend = b, own = [''a@x.com'' \<mapsto> sampleAccount c], proto = None\<rparr>"

definition sampleRequest :: "string \<Rightarrow> request" where
  "sampleRequest m =
     \<lparr>httpMethod = m, reqEmail = ''a@x.com'', amountField = 1, orderID = ''ORDER-1'',
      theme = ''alpine sunrise'', prompt = ''a hiker at dawn''\<rparr>"

text \<open>The same request made in the name of another email.\<close>

definition requestFor :: "string \<Rightarrow> string \<Rightarrow> request" where
  "requestFor m e = (sampleRequest m)\<lparr>reqEmail := e\<rparr>"

text \<open>
  The in-memory store after a write for an email it holds no document for: one object
  with the given balance and subscription flag and no other field.
\<close>

definition phantomLedger :: "string \<Rightarrow> jsval \<Rightarrow> bool option \<Rightarrow> ledger" where
  "phantomLedger e c p =
     \<lparr>backend = MockStore, own = [e \<mapsto> emptyDoc\<lparr>credits := c, isPro := p\<rparr>], proto = None\<rparr>"

text \<open>A configured payment processor whose capture call reports the given status.\<close>

definition samplePayPal :: "string \<Rightarrow> paypal_env" where
  "samplePayPal st =
     \<lparr>PAYPAL_CLIENT_ID = ''client'', PAYPAL_CLIENT_SECRET = ''secret'',
      tokenReply = Ok ''TOKEN'', captureOrder = (\<lambda>tok oid. Inr st)\<rparr>"

text \<open>
  A generation environment with both keys set, a provider that answers every call with
  the given result, and the given behaviour of the refund's storage call.
\<close>

definition sampleEnv :: "provider_result \<Rightarrow> bool \<Rightarrow> gen_env" where
  "sampleEnv r f =
     \<lparr>GEMINI_API_KEY = ''key'', API_KEY = ''key'', generateContent = (\<lambda>m c. r),
      refundThrows = f\<rparr>"

text \<open>A provider response that carries no candidates, hence no image.\<close>

definition emptyResponse :: gen_response where
  "emptyResponse = \<lparr>candidates = [], responseText = []\<rparr>"

section \<open>The store\<close>

lemma getDoc_Firestore:
  "backend s = Firestore \<Longrightarrow>
     getDoc s k = (case own s k of None \<Rightarrow> Absent | Some d \<Rightarrow> Stored d)"
  by (simp add: getDoc_def split: option.splits)

lemma getDoc_own: "own s k = Some d \<Longrightarrow> getDoc s k = Stored d"
  by (simp add: getDoc_def)

text \<open>
  In the in-memory store an email without a document is reported absent when it names
  neither a property of \<open>Object.prototype\<close> nor a truthy field of an installed prototype.
\<close>

lemma getDoc_MockStore_ordinary:
  assumes "own s k = None" and "k \<notin> set objectPrototypeKeys"
    and "proto s = None \<or> (\<exists>p. proto s = Some p \<and> \<not> inheritedFromProto p k)"
  shows "getDoc s k = Absent"
proof -
  have "k \<noteq> ''__proto__''"
    using assms(2) by (auto simp: objectPrototypeKeys_def)
  with assms show ?thesis
    by (cases "backend s") (auto simp: getDoc_def)
qed

lemma getDoc_Absent_own: "getDoc s k = Absent \<Longrightarrow> own s k = None"
  by (cases "own s k") (simp_all add: getDoc_def)

lemma getDoc_Absent_not_proto:
  "getDoc s k = Absent \<Longrightarrow> backend s = MockStore \<Longrightarrow> k \<noteq> ''__proto__''"
  by (auto simp: getDoc_def split: option.splits)

lemma getDoc_writeDoc_same: "getDoc (writeDoc s k d) k = Stored d"
  by (auto simp: getDoc_def writeDoc_def split: option.splits backend.splits)

lemma writeDoc_Absent:
  "getDoc s k = Absent \<Longrightarrow> writeDoc s k d = s\<lparr>own := (own s)(k \<mapsto> d)\<rparr>"
  using getDoc_Absent_not_proto [of s k] by (cases "backend s") (auto simp: writeDoc_def)

lemma writeDoc_own:
  "own s k = Some d0 \<Longrightarrow> writeDoc s k d = s\<lparr>own := (own s)(k \<mapsto> d)\<rparr>"
  by (simp add: writeDoc_def)

lemma writeDoc_Stored_same:
  assumes "getDoc s k = Stored d"
  shows "writeDoc s k d = s"
proof (cases "own s k")
  case None
  with assms have "backend s = MockStore \<and> k = ''__proto__'' \<and> proto s = Some d"
    by (auto simp: getDoc_def split: backend.splits option.splits if_splits)
  with None show ?thesis
    by (simp add: writeDoc_def)
next
  case (Some d0)
  with assms have "d0 = d"
    by (simp add: getDoc_def)
  with Some have "(own s)(k \<mapsto> d) = own s"
    by (simp add: map_upd_triv)
  with Some show ?thesis
    by (simp add: writeDoc_def)
qed

lemma writeDoc_twice: "writeDoc (writeDoc s k d1) k d2 = writeDoc s k d2"
  by (auto simp: writeDoc_def)

lemma docExists_simps:
  "docExists Absent = False" "docExists (Stored d) = True" "docExists InheritedValue = True"
  by (simp_all add: docExists_def)

lemma docData_simps:
  "docData Absent = emptyDoc" "docData (Stored d) = d" "docData InheritedValue = emptyDoc"
  by (simp_all add: docData_def)

lemma credits_emptyDoc: "credits emptyDoc = Undefined"
  by (simp add: emptyDoc_def)

lemma orZero_Num: "orZero (Num c) = Num c"
  by (simp add: orZero_def)

section \<open>Credit reservation\<close>

lemma deductTransaction_errors:
  "deductTransaction s e 1 = Inl msg \<Longrightarrow>
     msg = ''User not found'' \<or> msg = ''Insufficient credits''"
  by (auto simp: deductTransaction_def Let_def split: if_splits)

lemma deductTransaction_Inr:
  assumes "deductTransaction s e 1 = Inr (s1, n)"
  shows "docExists (getDoc s e) \<and> \<not> jsLess (credits (docData (getDoc s e))) 1 \<and>
    n = jsSub (credits (docData (getDoc s e))) 1 \<and>
    s1 = writeDoc s e ((docData (getDoc s e))\<lparr>credits := n\<rparr>)"
  using assms by (auto simp: deductTransaction_def Let_def split: if_splits)

text \<open>
  A reservation of one credit, by what the store reports for the email. No document:
  "User not found". A document with a numeric balance below one: "Insufficient credits".
  A document with a numeric balance of at least one: the balance less one is stored and
  returned, and the other fields and every other document stay as they were. For a POST
  request with an email the deduct endpoint answers 500, 403 and 200 with the new balance
  in the three cases.
\<close>

lemma reserveCredits_cases:
  "(getDoc s e = Absent \<longrightarrow>
      deductTransaction s e 1 = Inl ''User not found'') \<and>
   (\<forall>d c. getDoc s e = Stored d \<and> credits d = Num c \<and> c < 1 \<longrightarrow>
      deductTransaction s e 1 = Inl ''Insufficient credits'') \<and>
   (\<forall>d c. getDoc s e = Stored d \<and> credits d = Num c \<and> 1 \<le> c \<longrightarrow>
      deductTransaction s e 1 =
        Inr (writeDoc s e (d\<lparr>credits := Num (c - 1)\<rparr>), Num (c - 1)) \<and>
      email (d\<lparr>credits := Num (c - 1)\<rparr>) = email d \<and>
      isPro (d\<lparr>credits := Num (c - 1)\<rparr>) = isPro d \<and>
      createdAt (d\<lparr>credits := Num (c - 1)\<rparr>) = createdAt d) \<and>
   (httpMethod req = ''POST'' \<and> reqEmail req = e \<and> e \<noteq> [] \<longrightarrow>
      (getDoc s e = Absent \<longrightarrow>
         handleDeductCredit s req = (respond 500 (Message ''User not found''), s)) \<and>
      (\<forall>d c. getDoc s e = Stored d \<and> credits d = Num c \<and> c < 1 \<longrightarrow>
         handleDeductCredit s req = (respond 403 (Message ''Insufficient credits''), s)) \<and>
      (\<forall>d c. getDoc s e = Stored d \<and> credits d = Num c \<and> 1 \<le> c \<longrightarrow>
         handleDeductCredit s req =
           (respond 200 (Credits (Num (c - 1))),
            writeDoc s e (d\<lparr>credits := Num (c - 1)\<rparr>))))"
  by (auto simp: deductTransaction_def handleDeductCredit_def Let_def falsy_def
      messageOrDefault_def docExists_simps docData_simps)

text \<open>
  C3. The reservation is to fail with "User not found" whenever the email has no
  account. The in-memory store of the development server holds no document at all, and a
  POST to the deduct endpoint names the email \<open>toString\<close>. The store reports the function
  it inherits under that name as an existing document, so the reservation is not
  rejected: the endpoint answers 200 with the balance \<open>NaN\<close> and stores an object whose
  only field is that balance. A second reservation for the same email passes the balance
  check again and answers the same.
\<close>

theorem deduction_for_inherited_key_is_not_rejected:
  "own (emptyLedger MockStore) ''toString'' = None \<and>
   handleDeductCredit (emptyLedger MockStore) (requestFor ''POST'' ''toString'') =
     (respond 200 (Credits NaN), phantomLedger ''toString'' NaN None) \<and>
   handleDeductCredit (phantomLedger ''toString'' NaN None) (requestFor ''POST'' ''toString'') =
     (respond 200 (Credits NaN), phantomLedger ''toString'' NaN None)"
  by (simp add: handleDeductCredit_def deductTransaction_def getDoc_def writeDoc_def
      docExists_def docData_def emptyLedger_def phantomLedger_def requestFor_def
      sampleRequest_def objectPrototypeKeys_def emptyDoc_def falsy_def Let_def)

section \<open>Account bootstrap\<close>

text \<open>
  For an email the store reports no document for, the first \<open>getOrCreateUser\<close> stores one
  new account for that email, with five credits and no subscription, and a second call
  stores nothing and returns the stored record. A call for a stored document returns it
  and leaves the collection as it is. The cloud function's first reply carries the
  timestamp sentinel where the stored record and the second reply carry the time.
\<close>

lemma getOrCreateUser_idempotent:
  "(getDoc s e = Absent \<longrightarrow>
      getOrCreateUser s e t1 = (s\<lparr>own := (own s)(e \<mapsto> newUser e t1)\<rparr>, DocData (newUser e t1)) \<and>
      credits (newUser e t1) = Num 5 \<and> isPro (newUser e t1) = Some False \<and>
      email (newUser e t1) = Some e \<and>
      dom (own (fst (getOrCreateUser s e t1))) = insert e (dom (own s)) \<and>
      getOrCreateUser (fst (getOrCreateUser s e t1)) e t2 =
        (s\<lparr>own := (own s)(e \<mapsto> newUser e t1)\<rparr>, DocData (newUser e t1)) \<and>
      (httpMethod req = ''GET'' \<and> reqEmail req = e \<and> e \<noteq> [] \<longrightarrow>
         handleGetUser s t1 req =
           (respond 200 (UserData (DocData (newUser e t1))),
            s\<lparr>own := (own s)(e \<mapsto> newUser e t1)\<rparr>) \<and>
         handleGetUser (snd (handleGetUser s t1 req)) t2 req =
           (respond 200 (UserData (DocData (newUser e t1))),
            s\<lparr>own := (own s)(e \<mapsto> newUser e t1)\<rparr>))) \<and>
   (\<forall>d. getDoc s e = Stored d \<longrightarrow> getOrCreateUser s e t1 = (s, DocData d))"
proof -
  have stored: "getDoc (s\<lparr>own := (own s)(e \<mapsto> d)\<rparr>) e = Stored d" for d
    by (simp add: getDoc_def)
  show ?thesis
    by (auto simp: getOrCreateUser_def handleGetUser_def falsy_def writeDoc_Absent stored
        newUser_def)
qed

lemma apiGetOrCreateUser_idempotent:
  "(getDoc s e = Absent \<longrightarrow>
      apiGetOrCreateUser s e t1 =
        (s\<lparr>own := (own s)(e \<mapsto> newUser e t1)\<rparr>,
         DocData ((newUser e t1)\<lparr>createdAt := Some ServerTimestamp\<rparr>)) \<and>
      apiGetOrCreateUser (fst (apiGetOrCreateUser s e t1)) e t2 =
        (s\<lparr>own := (own s)(e \<mapsto> newUser e t1)\<rparr>, DocData (newUser e t1)) \<and>
      (reqEmail req = e \<and> e \<noteq> [] \<longrightarrow>
         apiGetUser s t1 req =
           (respond 200 (UserData (DocData ((newUser e t1)\<lparr>createdAt := Some ServerTimestamp\<rparr>))),
            s\<lparr>own := (own s)(e \<mapsto> newUser e t1)\<rparr>) \<and>
         apiGetUser (snd (apiGetUser s t1 req)) t2 req =
           (respond 200 (UserData (DocData (newUser e t1))),
            s\<lparr>own := (own s)(e \<mapsto> newUser e t1)\<rparr>))) \<and>
   (\<forall>d. getDoc s e = Stored d \<longrightarrow> apiGetOrCreateUser s e t1 = (s, DocData d))"
proof -
  have stored: "getDoc (s\<lparr>own := (own s)(e \<mapsto> d)\<rparr>) e = Stored d" for d
    by (simp add: getDoc_def)
  show ?thesis
    by (auto simp: apiGetOrCreateUser_def apiGetUser_def falsy_def writeDoc_Absent stored)
qed

text \<open>
  C7. The first call for a new email is to create one account with five credits. The
  in-memory store of the development server holds no document, and the user endpoint is
  asked for the email \<open>toString\<close>. The store reports the inherited function as the
  document, so \<open>getOrCreateUser\<close> creates nothing and returns that function instead of an
  account; a second call does the same.
\<close>

theorem getOrCreateUser_for_inherited_key_creates_nothing:
  "own (emptyLedger MockStore) ''toString'' = None \<and>
   getOrCreateUser (emptyLedger MockStore) ''toString'' 0 =
     (emptyLedger MockStore, InheritedData) \<and>
   handleGetUser (emptyLedger MockStore) 0 (requestFor ''GET'' ''toString'') =
     (respond 200 (UserData InheritedData), emptyLedger MockStore)"
  by (simp add: handleGetUser_def getOrCreateUser_def getDoc_def emptyLedger_def
      requestFor_def sampleRequest_def objectPrototypeKeys_def falsy_def)

section \<open>Refund endpoint\<close>

text \<open>
  For a POST request with an email, the refund endpoint adds exactly one credit to a
  stored document with a numeric balance and answers 200 with the new balance, whatever
  the balance was and whatever \<open>amount\<close> the client sent; when the store reports no
  document it answers 500 "User not found" and changes nothing, and that is the only case
  in which such a request fails.
\<close>

lemma handleRefundCredit_adds_one:
  "(httpMethod req = ''POST'' \<and> reqEmail req = e \<and> e \<noteq> [] \<longrightarrow>
      (\<forall>d c. getDoc s e = Stored d \<and> credits d = Num c \<longrightarrow>
         handleRefundCredit s req =
           (respond 200 (Credits (Num (c + 1))),
            writeDoc s e (d\<lparr>credits := Num (c + 1)\<rparr>))) \<and>
      (getDoc s e = Absent \<longrightarrow>
         handleRefundCredit s req = (respond 500 (Message ''User not found''), s)) \<and>
      (status (fst (handleRefundCredit s req)) \<noteq> 200 \<longleftrightarrow> getDoc s e = Absent)) \<and>
   handleRefundCredit s (req\<lparr>amountField := k\<rparr>) = handleRefundCredit s req"
  by (cases "getDoc s e")
    (auto simp: handleRefundCredit_def refundTransaction_def Let_def falsy_def
      messageOrDefault_def respond_def docExists_simps docData_simps)


section \<open>Payment capture\<close>

lemma generatePayPalAccessToken_sample:
  "generatePayPalAccessToken (samplePayPal st) = Inr ''TOKEN''"
  by (simp add: generatePayPalAccessToken_def samplePayPal_def falsy_def)

text \<open>
  C8. For a POST capture request with an order id and an email, once the processor has
  issued a token and answered the capture call: if the status is COMPLETED and the email
  has a stored document, the handler answers success and stores, in one update,
  \<open>(credits || 0) + 100\<close> and the subscription flag set, which for an account with a
  numeric balance is the balance plus 100; if the status is anything else it answers 400
  and the collection is unchanged. Whatever the request, the collection changes only when
  the processor reported COMPLETED.
\<close>

theorem capture_completed_grants_100:
  "(httpMethod req = ''POST'' \<and> orderID req \<noteq> [] \<and> reqEmail req = e \<and> e \<noteq> [] \<and>
    generatePayPalAccessToken env = Inr tok \<and>
    captureOrder env tok (orderID req) = Inr st \<longrightarrow>
      (\<forall>d. st = ''COMPLETED'' \<and> getDoc s e = Stored d \<longrightarrow>
         handleCapturePayPalOrder s env req =
           (respond 200 (Capture True ''COMPLETED''),
            writeDoc s e (d\<lparr>credits := jsAdd (orZero (credits d)) 100, isPro := Some True\<rparr>))) \<and>
      (\<forall>d c. st = ''COMPLETED'' \<and> own s e = Some d \<and> credits d = Num c \<longrightarrow>
         handleCapturePayPalOrder s env req =
           (respond 200 (Capture True ''COMPLETED''),
            s\<lparr>own := (own s)(e \<mapsto> d\<lparr>credits := Num (c + 100), isPro := Some True\<rparr>)\<rparr>)) \<and>
      (st \<noteq> ''COMPLETED'' \<longrightarrow>
         handleCapturePayPalOrder s env req = (respond 400 (Capture False st), s))) \<and>
   (snd (handleCapturePayPalOrder s env req) \<noteq> s \<longrightarrow>
      (\<exists>t. generatePayPalAccessToken env = Inr t \<and>
           captureOrder env t (orderID req) = Inr ''COMPLETED''))"
proof (intro conjI impI allI)
  fix d
  assume a: "httpMethod req = ''POST'' \<and> orderID req \<noteq> [] \<and> reqEmail req = e \<and> e \<noteq> [] \<and>
    generatePayPalAccessToken env = Inr tok \<and> captureOrder env tok (orderID req) = Inr st"
    and b: "st = ''COMPLETED'' \<and> getDoc s e = Stored d"
  then show "handleCapturePayPalOrder s env req =
      (respond 200 (Capture True ''COMPLETED''),
       writeDoc s e (d\<lparr>credits := jsAdd (orZero (credits d)) 100, isPro := Some True\<rparr>))"
    by (simp add: handleCapturePayPalOrder_def grantTransaction_def falsy_def Let_def
        docExists_simps docData_simps)
next
  fix d c
  assume a: "httpMethod req = ''POST'' \<and> orderID req \<noteq> [] \<and> reqEmail req = e \<and> e \<noteq> [] \<and>
    generatePayPalAccessToken env = Inr tok \<and> captureOrder env tok (orderID req) = Inr st"
    and b: "st = ''COMPLETED'' \<and> own s e = Some d \<and> credits d = Num c"
  from b have g: "getDoc s e = Stored d"
    by (simp add: getDoc_own)
  from b have w: "writeDoc s e d' = s\<lparr>own := (own s)(e \<mapsto> d')\<rparr>" for d'
    by (simp add: writeDoc_own)
  from a b g show "handleCapturePayPalOrder s env req =
      (respond 200 (Capture True ''COMPLETED''),
       s\<lparr>own := (own s)(e \<mapsto> d\<lparr>credits := Num (c + 100), isPro := Some True\<rparr>)\<rparr>)"
    by (simp add: handleCapturePayPalOrder_def grantTransaction_def falsy_def Let_def
        docExists_simps docData_simps orZero_Num w)
next
  assume a: "httpMethod req = ''POST'' \<and> orderID req \<noteq> [] \<and> reqEmail req = e \<and> e \<noteq> [] \<and>
    generatePayPalAccessToken env = Inr tok \<and> captureOrder env tok (orderID req) = Inr st"
    and b: "st \<noteq> ''COMPLETED''"
  then show "handleCapturePayPalOrder s env req = (respond 400 (Capture False st), s)"
    by (simp add: handleCapturePayPalOrder_def falsy_def)
next
  assume "snd (handleCapturePayPalOrder s env req) \<noteq> s"
  then show "\<exists>t. generatePayPalAccessToken env = Inr t \<and>
      captureOrder env t (orderID req) = Inr ''COMPLETED''"
    by (auto simp: handleCapturePayPalOrder_def split: sum.splits if_splits)
qed

theorem capture_completed_grants_100_witness:
  "handleCapturePayPalOrder (sampleLedger Firestore 3) (samplePayPal ''COMPLETED'')
       (sampleRequest ''POST'') =
     (respond 200 (Capture True ''COMPLETED''),
      \<lparr>backend = Firestore,
       own = [''a@x.com'' \<mapsto> (sampleAccount 103)\<lparr>isPro := Some True\<rparr>], proto = None\<rparr>) \<and>
   handleCapturePayPalOrder (sampleLedger Firestore 3) (samplePayPal ''PENDING'')
       (sampleRequest ''POST'') =
     (respond 400 (Capture False ''PENDING''), sampleLedger Firestore 3)"
proof -
  let ?s = "sampleLedger Firestore 3"
  have cap: "captureOrder (samplePayPal st) ''TOKEN'' (orderID (sampleRequest ''POST'')) = Inr st"
    for st
    by (simp add: samplePayPal_def)
  have req: "httpMethod (sampleRequest ''POST'') = ''POST'' \<and>
      orderID (sampleRequest ''POST'') \<noteq> [] \<and>
      reqEmail (sampleRequest ''POST'') = ''a@x.com'' \<and> ''a@x.com'' \<noteq> []"
    by (simp add: sampleRequest_def)
  have acc: "own ?s ''a@x.com'' = Some (sampleAccount 3) \<and> credits (sampleAccount 3) = Num 3"
    by (simp add: sampleLedger_def sampleAccount_def)
  have upd: "?s\<lparr>own := (own ?s)(''a@x.com'' \<mapsto>
        (sampleAccount 3)\<lparr>credits := Num 103, isPro := Some True\<rparr>)\<rparr> =
      \<lparr>backend = Firestore,
       own = [''a@x.com'' \<mapsto> (sampleAccount 103)\<lparr>isPro := Some True\<rparr>], proto = None\<rparr>"
    by (simp add: sampleLedger_def sampleAccount_def)
  from capture_completed_grants_100
      [of "sampleRequest ''POST''" "''a@x.com''" "samplePayPal ''COMPLETED''" "''TOKEN''"
        "''COMPLETED''" ?s]
    generatePayPalAccessToken_sample cap req acc
  have a: "handleCapturePayPalOrder ?s (samplePayPal ''COMPLETED'') (sampleRequest ''POST'') =
      (respond 200 (Capture True ''COMPLETED''),
       ?s\<lparr>own := (own ?s)(''a@x.com'' \<mapsto>
         (sampleAccount 3)\<lparr>credits := Num (3 + 100), isPro := Some True\<rparr>)\<rparr>)"
    by blast
  have ne: "''PENDING'' \<noteq> ''COMPLETED''"
    by simp
  from capture_completed_grants_100
      [of "sampleRequest ''POST''" "''a@x.com''" "samplePayPal ''PENDING''" "''TOKEN''"
        "''PENDING''" ?s]
    generatePayPalAccessToken_sample cap req ne
  have b: "handleCapturePayPalOrder ?s (samplePayPal ''PENDING'') (sampleRequest ''POST'') =
      (respond 400 (Capture False ''PENDING''), ?s)"
    by blast
  from a b show ?thesis
    by (simp add: upd)
qed

text \<open>
  When the processor reports COMPLETED for an email the store reports no document for,
  the capture handler still answers success and the collection is unchanged.
\<close>

lemma capture_without_account_succeeds:
  "httpMethod req = ''POST'' \<Longrightarrow> orderID req \<noteq> [] \<Longrightarrow> reqEmail req \<noteq> [] \<Longrightarrow>
   generatePayPalAccessToken env = Inr tok \<Longrightarrow>
   captureOrder env tok (orderID req) = Inr ''COMPLETED'' \<Longrightarrow>
   getDoc s (reqEmail req) = Absent \<Longrightarrow>
   handleCapturePayPalOrder s env req = (respond 200 (Capture True ''COMPLETED''), s)"
  by (simp add: handleCapturePayPalOrder_def grantTransaction_def falsy_def docExists_simps)

text \<open>
  C10. A COMPLETED capture for an email without an account is to change no stored state
  and to grant no credits. The in-memory store of the development server holds no
  document, and the capture request names the email \<open>constructor\<close>. The store reports the
  inherited function as the document, so the transaction writes: the handler answers
  success and leaves behind an object with 100 credits and the subscription flag set.
\<close>

theorem capture_for_inherited_key_grants_credits:
  "own (emptyLedger MockStore) ''constructor'' = None \<and>
   handleCapturePayPalOrder (emptyLedger MockStore) (samplePayPal ''COMPLETED'')
       (requestFor ''POST'' ''constructor'') =
     (respond 200 (Capture True ''COMPLETED''),
      phantomLedger ''constructor'' (Num 100) (Some True))"
proof -
  have cap: "captureOrder (samplePayPal ''COMPLETED'') ''TOKEN''
      (orderID (requestFor ''POST'' ''constructor'')) = Inr ''COMPLETED''"
    by (simp add: samplePayPal_def)
  have req: "httpMethod (requestFor ''POST'' ''constructor'') = ''POST'' \<and>
      orderID (requestFor ''POST'' ''constructor'') \<noteq> [] \<and>
      reqEmail (requestFor ''POST'' ''constructor'') = ''constructor''"
    by (simp add: requestFor_def sampleRequest_def)
  have grant: "grantTransaction (emptyLedger MockStore) ''constructor'' =
      phantomLedger ''constructor'' (Num 100) (Some True)"
    by (simp add: grantTransaction_def getDoc_def writeDoc_def docExists_def docData_def
        emptyLedger_def phantomLedger_def objectPrototypeKeys_def emptyDoc_def orZero_def
        Let_def)
  have "handleCapturePayPalOrder (emptyLedger MockStore) (samplePayPal ''COMPLETED'')
      (requestFor ''POST'' ''constructor'') =
    (respond 200 (Capture True ''COMPLETED''),
     grantTransaction (emptyLedger MockStore) ''constructor'')"
    using cap req
    by (simp add: handleCapturePayPalOrder_def generatePayPalAccessToken_sample falsy_def)
  moreover have "own (emptyLedger MockStore) ''constructor'' = None"
    by (simp add: emptyLedger_def)
  ultimately show ?thesis
    by (simp add: grant)
qed

section \<open>Non-negative balances\<close>

lemma nonneg_Num: "nonneg x \<Longrightarrow> \<exists>c. x = Num c \<and> 0 \<le> c"
  by (cases x) simp_all

lemma ledger_nonneg_writeDoc:
  "ledger_nonneg s \<Longrightarrow> nonneg (credits d) \<Longrightarrow> ledger_nonneg (writeDoc s k d)"
  by (simp add: ledger_nonneg_def writeDoc_def)

lemma ledger_nonneg_Stored:
  assumes "ledger_nonneg s" and "getDoc s e = Stored d"
  shows "nonneg (credits d)"
proof (cases "own s e")
  case None
  with assms(2) have "proto s = Some d"
    by (auto simp: getDoc_def split: backend.splits option.splits if_splits)
  with assms(1) show ?thesis
    by (simp add: ledger_nonneg_def)
next
  case (Some d0)
  with assms(2) have "d0 = d"
    by (simp add: getDoc_def)
  moreover from assms(1) have "case own s e of None \<Rightarrow> True | Some d \<Rightarrow> nonneg (credits d)"
    unfolding ledger_nonneg_def by blast
  ultimately show ?thesis
    using Some by simp
qed

lemma getOrCreateUser_nonneg:
  "ledger_nonneg s \<Longrightarrow> ledger_nonneg (fst (getOrCreateUser s e now))"
  "ledger_nonneg s \<Longrightarrow> ledger_nonneg (fst (apiGetOrCreateUser s e now))"
  by (cases "getDoc s e";
      simp add: getOrCreateUser_def apiGetOrCreateUser_def newUser_def ledger_nonneg_writeDoc)+

lemma deductTransaction_nonneg:
  assumes "ledger_nonneg s" and "getDoc s e \<noteq> InheritedValue"
    and "deductTransaction s e 1 = Inr (s', n)"
  shows "ledger_nonneg s' \<and> nonneg n"
proof (cases "getDoc s e")
  case Absent
  with assms(3) show ?thesis
    by (simp add: deductTransaction_def docExists_simps)
next
  case (Stored d)
  with assms(1) obtain c where c: "credits d = Num c" "0 \<le> c"
    using ledger_nonneg_Stored nonneg_Num by blast
  with assms(1,3) Stored show ?thesis
    by (auto simp: deductTransaction_def Let_def docExists_simps docData_simps
        split: if_splits intro!: ledger_nonneg_writeDoc)
next
  case InheritedValue
  with assms(2) show ?thesis
    by simp
qed

lemma refundTransaction_nonneg:
  assumes "ledger_nonneg s" and "getDoc s e \<noteq> InheritedValue"
    and "refundTransaction s e 1 = Inr (s', n)"
  shows "ledger_nonneg s' \<and> nonneg n"
proof (cases "getDoc s e")
  case Absent
  with assms(3) show ?thesis
    by (simp add: refundTransaction_def docExists_simps)
next
  case (Stored d)
  with assms(1) obtain c where c: "credits d = Num c" "0 \<le> c"
    using ledger_nonneg_Stored nonneg_Num by blast
  with assms(1,3) Stored show ?thesis
    by (auto simp: refundTransaction_def Let_def docExists_simps docData_simps
        intro!: ledger_nonneg_writeDoc)
next
  case InheritedValue
  with assms(2) show ?thesis
    by simp
qed

lemma grantTransaction_nonneg:
  assumes "ledger_nonneg s" and "getDoc s e \<noteq> InheritedValue"
  shows "ledger_nonneg (grantTransaction s e)"
proof (cases "getDoc s e")
  case Absent
  with assms(1) show ?thesis
    by (simp add: grantTransaction_def docExists_simps)
next
  case (Stored d)
  with assms(1) obtain c where c: "credits d = Num c" "0 \<le> c"
    using ledger_nonneg_Stored nonneg_Num by blast
  with assms(1) Stored show ?thesis
    by (simp add: grantTransaction_def Let_def docExists_simps docData_simps orZero_Num
        ledger_nonneg_writeDoc)
next
  case InheritedValue
  with assms(2) show ?thesis
    by simp
qed

lemma refund_nonneg:
  assumes "ledger_nonneg s" and "getDoc s e \<noteq> InheritedValue"
  shows "ledger_nonneg (refundIfExists s env e)" and "ledger_nonneg (refundIncrement s env e)"
proof -
  have "ledger_nonneg (refundIfExists s env e) \<and> ledger_nonneg (refundIncrement s env e)"
  proof (cases "getDoc s e")
    case Absent
    with assms(1) show ?thesis
      by (simp add: refundIfExists_def refundIncrement_def docExists_simps)
  next
    case (Stored d)
    with assms(1) obtain c where c: "credits d = Num c" "0 \<le> c"
      using ledger_nonneg_Stored nonneg_Num by blast
    with assms(1) Stored show ?thesis
      by (simp add: refundIfExists_def refundIncrement_def Let_def docExists_simps
          docData_simps orZero_Num ledger_nonneg_writeDoc)
  next
    case InheritedValue
    with assms(2) show ?thesis
      by simp
  qed
  then show "ledger_nonneg (refundIfExists s env e)"
    and "ledger_nonneg (refundIncrement s env e)"
    by simp_all
qed

lemma handleGetUser_nonneg:
  "ledger_nonneg s \<Longrightarrow> ledger_nonneg (snd (handleGetUser s now req))"
  "ledger_nonneg s \<Longrightarrow> ledger_nonneg (snd (apiGetUser s now req))"
  using getOrCreateUser_nonneg [of s "reqEmail req" now]
  by (auto simp: handleGetUser_def apiGetUser_def split: prod.splits)

lemma handleDeductCredit_nonneg:
  "ledger_nonneg s \<Longrightarrow> getDoc s (reqEmail req) \<noteq> InheritedValue \<Longrightarrow>
     ledger_nonneg (snd (handleDeductCredit s req))"
  using deductTransaction_nonneg [of s "reqEmail req"]
  by (auto simp: handleDeductCredit_def Let_def split: sum.splits)

lemma handleRefundCredit_nonneg:
  "ledger_nonneg s \<Longrightarrow> getDoc s (reqEmail req) \<noteq> InheritedValue \<Longrightarrow>
     ledger_nonneg (snd (handleRefundCredit s req))"
  using refundTransaction_nonneg [of s "reqEmail req"]
  by (auto simp: handleRefundCredit_def Let_def split: sum.splits)

lemma handleCapturePayPalOrder_nonneg:
  "ledger_nonneg s \<Longrightarrow> getDoc s (reqEmail req) \<noteq> InheritedValue \<Longrightarrow>
     ledger_nonneg (snd (handleCapturePayPalOrder s env req))"
  using grantTransaction_nonneg [of s "reqEmail req"]
  by (auto simp: handleCapturePayPalOrder_def split: sum.splits)

text \<open>
  After a successful reservation the store reports a stored document for the email, so
  the refund that follows it in the same request acts on a document.
\<close>

lemma deductTransaction_then_Stored:
  "deductTransaction s e 1 = Inr (s1, n) \<Longrightarrow> \<exists>d. getDoc s1 e = Stored d"
  using deductTransaction_Inr [of s e s1 n] by (auto simp: getDoc_writeDoc_same)

lemma handleGenerateBackground_nonneg:
  assumes "ledger_nonneg s" and "getDoc s (reqEmail req) \<noteq> InheritedValue"
  shows "ledger_nonneg (store (handleGenerateBackground s env req))"
proof (cases "deductTransaction s (reqEmail req) 1")
  case (Inl msg)
  then have "tryGenerateBackground s env req = (Inl msg, s, [])"
    by (simp add: tryGenerateBackground_def)
  with assms refund_nonneg(1) [OF assms, of env] show ?thesis
    by (simp add: handleGenerateBackground_def catchGenerateBackground_def Let_def)
next
  case (Inr r)
  obtain s1 n where r: "r = (s1, n)"
    by (cases r)
  with Inr assms have s1: "ledger_nonneg s1"
    using deductTransaction_nonneg by blast
  from Inr r obtain d where "getDoc s1 (reqEmail req) = Stored d"
    using deductTransaction_then_Stored by blast
  then have "getDoc s1 (reqEmail req) \<noteq> InheritedValue"
    by simp
  with s1 have rf: "ledger_nonneg (refundIfExists s1 env (reqEmail req))"
    by (rule refund_nonneg(1))
  from Inr r s1 rf assms(1) show ?thesis
    by (auto simp: handleGenerateBackground_def tryGenerateBackground_def
        catchGenerateBackground_def Let_def
        split: provider_result.splits option.splits)
qed

lemma apiGenerateBackground_nonneg:
  assumes "ledger_nonneg s" and "getDoc s (reqEmail req) \<noteq> InheritedValue"
  shows "ledger_nonneg (store (apiGenerateBackground s env req))"
proof (cases "deductTransaction s (reqEmail req) 1")
  case (Inl msg)
  then have "tryApiGenerateBackground s env req = (Inl msg, s, [])"
    by (simp add: tryApiGenerateBackground_def)
  with assms refund_nonneg(2) [OF assms, of env] show ?thesis
    by (simp add: apiGenerateBackground_def catchApiGenerateBackground_def Let_def)
next
  case (Inr r)
  obtain s1 n where r: "r = (s1, n)"
    by (cases r)
  with Inr assms have s1: "ledger_nonneg s1"
    using deductTransaction_nonneg by blast
  from Inr r obtain d where "getDoc s1 (reqEmail req) = Stored d"
    using deductTransaction_then_Stored by blast
  then have "getDoc s1 (reqEmail req) \<noteq> InheritedValue"
    by simp
  with s1 have rf: "ledger_nonneg (refundIncrement s1 env (reqEmail req))"
    by (rule refund_nonneg(2))
  from Inr r s1 rf assms(1) show ?thesis
    by (auto simp: apiGenerateBackground_def tryApiGenerateBackground_def
        catchApiGenerateBackground_def Let_def
        split: provider_result.splits option.splits)
qed

lemma handleGeneratePrompt_nonneg:
  assumes "ledger_nonneg s" and "getDoc s (reqEmail req) \<noteq> InheritedValue"
  shows "ledger_nonneg (store (handleGeneratePrompt s env req))"
proof -
  have d: "ledger_nonneg s1" if "deductTransaction s (reqEmail req) 1 = Inr (s1, n)" for s1 n
    using deductTransaction_nonneg [OF assms that] by simp
  show ?thesis
    using assms(1) d
    by (auto simp: handleGeneratePrompt_def Let_def
        split: sum.splits provider_result.splits)
qed

text \<open>
  If every object the store holds has a balance \<open>>= 0\<close>, it is so after each ledger
  operation for an email that the store either holds a document for or reports absent:
  \<open>getOrCreateUser\<close>, the deduction, the refund and the payment grant, as transactions
  and as endpoints, and the three metered generation handlers. A deduction from a
  balance below one fails with "Insufficient credits" and the deduct endpoint leaves the
  collection as it was; it is not clamped to zero.
\<close>

lemma ledger_operations_keep_nonneg:
  assumes "ledger_nonneg s" and "getDoc s e \<noteq> InheritedValue" and "reqEmail req = e"
  shows "ledger_nonneg (fst (getOrCreateUser s e now)) \<and>
    ledger_nonneg (snd (handleGetUser s now req)) \<and>
    (\<forall>s' n. deductTransaction s e 1 = Inr (s', n) \<longrightarrow> ledger_nonneg s' \<and> nonneg n) \<and>
    ledger_nonneg (snd (handleDeductCredit s req)) \<and>
    (\<forall>s' n. refundTransaction s e 1 = Inr (s', n) \<longrightarrow> ledger_nonneg s' \<and> nonneg n) \<and>
    ledger_nonneg (snd (handleRefundCredit s req)) \<and>
    ledger_nonneg (grantTransaction s e) \<and>
    ledger_nonneg (snd (handleCapturePayPalOrder s env req)) \<and>
    ledger_nonneg (store (handleGenerateBackground s genv req)) \<and>
    ledger_nonneg (store (apiGenerateBackground s genv req)) \<and>
    ledger_nonneg (store (handleGeneratePrompt s genv req)) \<and>
    (\<forall>d c. getDoc s e = Stored d \<and> credits d = Num c \<and> c - 1 < 0 \<longrightarrow>
       deductTransaction s e 1 = Inl ''Insufficient credits'' \<and>
       snd (handleDeductCredit s req) = s)"
proof -
  have rejected: "deductTransaction s e 1 = Inl ''Insufficient credits'' \<and>
      snd (handleDeductCredit s req) = s"
    if "getDoc s e = Stored d" and "credits d = Num c" and "c - 1 < 0" for d c
    using that assms(3)
    by (simp add: deductTransaction_def handleDeductCredit_def Let_def docExists_simps
        docData_simps)
  have d: "ledger_nonneg s' \<and> nonneg n" if "deductTransaction s e 1 = Inr (s', n)" for s' n
    using assms(1,2) that by (rule deductTransaction_nonneg)
  have r: "ledger_nonneg s' \<and> nonneg n" if "refundTransaction s e 1 = Inr (s', n)" for s' n
    using assms(1,2) that by (rule refundTransaction_nonneg)
  have e: "getDoc s (reqEmail req) \<noteq> InheritedValue"
    using assms(2,3) by simp
  show ?thesis
  proof (intro conjI allI impI)
    show "ledger_nonneg (fst (getOrCreateUser s e now))"
      using assms(1) by (rule getOrCreateUser_nonneg)
    show "ledger_nonneg (snd (handleGetUser s now req))"
      using assms(1) by (rule handleGetUser_nonneg)
    show "ledger_nonneg (snd (handleDeductCredit s req))"
      using assms(1) e by (rule handleDeductCredit_nonneg)
    show "ledger_nonneg (snd (handleRefundCredit s req))"
      using assms(1) e by (rule handleRefundCredit_nonneg)
    show "ledger_nonneg (grantTransaction s e)"
      using assms(1,2) by (rule grantTransaction_nonneg)
    show "ledger_nonneg (snd (handleCapturePayPalOrder s env req))"
      using assms(1) e by (rule handleCapturePayPalOrder_nonneg)
    show "ledger_nonneg (store (handleGenerateBackground s genv req))"
      using assms(1) e by (rule handleGenerateBackground_nonneg)
    show "ledger_nonneg (store (apiGenerateBackground s genv req))"
      using assms(1) e by (rule apiGenerateBackground_nonneg)
    show "ledger_nonneg (store (handleGeneratePrompt s genv req))"
      using assms(1) e by (rule handleGeneratePrompt_nonneg)
  qed (use d r rejected in \<open>blast+\<close>)
qed


section \<open>Metered generation: reservation failure\<close>

lemma deductTransaction_sample:
  "deductTransaction (sampleLedger b c) ''a@x.com'' 1 =
     (if c < 1 then Inl ''Insufficient credits''
      else Inr (sampleLedger b (c - 1), Num (c - 1)))"
  by (simp add: deductTransaction_def getDoc_def writeDoc_def docExists_def docData_def
      sampleLedger_def sampleAccount_def Let_def)

lemma reservation_errors_not_refundable:
  assumes "msg = ''User not found'' \<or> msg = ''Insufficient credits''"
  shows "\<not> refundCondition msg \<and> \<not> apiRefundCondition msg \<and> messageOrDefault msg = msg"
  using assms
  by (auto simp: refundCondition_def apiRefundCondition_def messageOrDefault_def falsy_def)

lemma catch_after_failed_reservation:
  assumes "deductTransaction db e 1 = Inl msg"
  shows "catchGenerateBackground db env e msg =
      (respond (if msg = ''Insufficient credits'' then 403 else 500) (Message msg), db)"
    and "catchApiGenerateBackground db env e msg =
      (respond (if msg = ''Insufficient credits'' then 403 else 500) (Message msg), db)"
  using reservation_errors_not_refundable [OF deductTransaction_errors [OF assms]]
  by (simp_all add: catchGenerateBackground_def catchApiGenerateBackground_def Let_def)

text \<open>
  C2. When the reservation fails, none of the three metered handlers calls the provider
  and none changes the collection; a request that passed the input checks is answered
  with the reservation's error message, with status 403 for "Insufficient credits" and 500
  for "User not found" by the two background handlers and with status 500 by the prompt
  handler.
\<close>

theorem failed_reservation_makes_no_provider_call:
  assumes "deductTransaction db (reqEmail req) 1 = Inl msg"
  shows "providerCalls (handleGenerateBackground db env req) = [] \<and>
    store (handleGenerateBackground db env req) = db \<and>
    providerCalls (apiGenerateBackground db env req) = [] \<and>
    store (apiGenerateBackground db env req) = db \<and>
    providerCalls (handleGeneratePrompt db env req) = [] \<and>
    store (handleGeneratePrompt db env req) = db \<and>
    (httpMethod req = ''POST'' \<and> prompt req \<noteq> [] \<and> reqEmail req \<noteq> [] \<longrightarrow>
       reply (handleGenerateBackground db env req) =
         respond (if msg = ''Insufficient credits'' then 403 else 500) (Message msg)) \<and>
    (theme req \<noteq> [] \<and> reqEmail req \<noteq> [] \<and> API_KEY env \<noteq> [] \<longrightarrow>
       reply (apiGenerateBackground db env req) =
         respond (if msg = ''Insufficient credits'' then 403 else 500) (Message msg)) \<and>
    (httpMethod req = ''POST'' \<and> theme req \<noteq> [] \<and> reqEmail req \<noteq> [] \<longrightarrow>
       reply (handleGeneratePrompt db env req) = respond 500 (Message msg))"
proof -
  note c = catch_after_failed_reservation [OF assms]
  have t1: "tryGenerateBackground db env req = (Inl msg, db, [])"
    using assms by (simp add: tryGenerateBackground_def)
  have t2: "tryApiGenerateBackground db env req = (Inl msg, db, [])"
    using assms by (simp add: tryApiGenerateBackground_def)
  have m: "messageOrDefault msg = msg"
    using reservation_errors_not_refundable [OF deductTransaction_errors [OF assms]] by simp
  have h1: "providerCalls (handleGenerateBackground db env req) = [] \<and>
      store (handleGenerateBackground db env req) = db \<and>
      (httpMethod req = ''POST'' \<and> prompt req \<noteq> [] \<and> reqEmail req \<noteq> [] \<longrightarrow>
       reply (handleGenerateBackground db env req) =
         respond (if msg = ''Insufficient credits'' then 403 else 500) (Message msg))"
    by (simp add: handleGenerateBackground_def t1 c falsy_def)
  have h2: "providerCalls (apiGenerateBackground db env req) = [] \<and>
      store (apiGenerateBackground db env req) = db \<and>
      (theme req \<noteq> [] \<and> reqEmail req \<noteq> [] \<and> API_KEY env \<noteq> [] \<longrightarrow>
       reply (apiGenerateBackground db env req) =
         respond (if msg = ''Insufficient credits'' then 403 else 500) (Message msg))"
    by (simp add: apiGenerateBackground_def t2 c falsy_def)
  have h3: "providerCalls (handleGeneratePrompt db env req) = [] \<and>
      store (handleGeneratePrompt db env req) = db \<and>
      (httpMethod req = ''POST'' \<and> theme req \<noteq> [] \<and> reqEmail req \<noteq> [] \<longrightarrow>
       reply (handleGeneratePrompt db env req) = respond 500 (Message msg))"
    using assms by (simp add: handleGeneratePrompt_def m falsy_def)
  from h1 h2 h3 show ?thesis by blast
qed

theorem failed_reservation_makes_no_provider_call_witness:
  "deductTransaction (sampleLedger MockStore 0) ''a@x.com'' 1 = Inl ''Insufficient credits'' \<and>
   handleGenerateBackground (sampleLedger MockStore 0)
       (sampleEnv (ProviderThrows ''unreachable'') False) (sampleRequest ''POST'') =
     \<lparr>reply = respond 403 (Message ''Insufficient credits''), store = sampleLedger MockStore 0,
      providerCalls = []\<rparr> \<and>
   apiGenerateBackground (emptyLedger Firestore)
       (sampleEnv (ProviderThrows ''unreachable'') False) (sampleRequest ''POST'') =
     \<lparr>reply = respond 500 (Message ''User not found''), store = emptyLedger Firestore,
      providerCalls = []\<rparr>"
proof -
  let ?env = "sampleEnv (ProviderThrows ''unreachable'') False"
  let ?req = "sampleRequest ''POST''"
  have r: "httpMethod ?req = ''POST'' \<and> prompt ?req \<noteq> [] \<and> theme ?req \<noteq> [] \<and>
      reqEmail ?req \<noteq> [] \<and> API_KEY ?env \<noteq> [] \<and> reqEmail ?req = ''a@x.com''"
    by (simp add: sampleRequest_def sampleEnv_def)
  have d0: "deductTransaction (sampleLedger MockStore 0) (reqEmail ?req) 1 =
      Inl ''Insufficient credits''"
    using r by (simp add: deductTransaction_sample)
  have d1: "deductTransaction (emptyLedger Firestore) (reqEmail ?req) 1 = Inl ''User not found''"
    by (simp add: deductTransaction_def getDoc_def emptyLedger_def docExists_def)
  note a = failed_reservation_makes_no_provider_call [OF d0, of ?env]
  note b = failed_reservation_makes_no_provider_call [OF d1, of ?env]
  have A: "handleGenerateBackground (sampleLedger MockStore 0) ?env ?req =
      \<lparr>reply = respond 403 (Message ''Insufficient credits''), store = sampleLedger MockStore 0,
       providerCalls = []\<rparr>"
    using a r by (intro outcome.equality) simp_all
  have B: "apiGenerateBackground (emptyLedger Firestore) ?env ?req =
      \<lparr>reply = respond 500 (Message ''User not found''), store = emptyLedger Firestore,
       providerCalls = []\<rparr>"
    using b r by (intro outcome.equality) simp_all
  from d0 r A B show ?thesis by simp
qed

section \<open>Metered generation: provider failure\<close>

lemma includes_js_nonempty: "includes_js msg sub \<Longrightarrow> sub \<noteq> [] \<Longrightarrow> msg \<noteq> []"
  by (cases msg) simp_all

lemma refundCondition_message:
  "refundCondition msg \<Longrightarrow> msg \<noteq> ''Insufficient credits'' \<and> messageOrDefault msg = msg"
  by (auto simp: refundCondition_def messageOrDefault_def falsy_def)

lemma apiRefundCondition_message:
  "apiRefundCondition msg \<Longrightarrow> msg \<noteq> ''Insufficient credits'' \<and> messageOrDefault msg = msg"
  by (auto simp: apiRefundCondition_def messageOrDefault_def falsy_def)

text \<open>
  What the background handlers do once the reservation has succeeded and the provider
  step has failed with message \<open>msg\<close>.
\<close>

lemma tryGenerateBackground_provider_failure:
  assumes "deductTransaction db (reqEmail req) 1 = Inr (db1, n)"
    and "GEMINI_API_KEY env \<noteq> [] \<or> API_KEY env \<noteq> []"
    and "failureMessage (generateContent env ''gemini-2.5-flash-image'' (prompt req)) = Some msg"
  shows "tryGenerateBackground db env req = (Inl msg, db1, [prompt req])"
  using assms
  by (auto simp: tryGenerateBackground_def failureMessage_def falsy_def Let_def
      split: provider_result.splits option.splits)

lemma tryApiGenerateBackground_provider_failure:
  assumes "deductTransaction db (reqEmail req) 1 = Inr (db1, n)"
    and "failureMessage (generateContent env ''gemini-2.5-flash-image''
      (backgroundPrompt (theme req))) = Some msg"
  shows "tryApiGenerateBackground db env req = (Inl msg, db1, [backgroundPrompt (theme req)])"
  using assms
  by (auto simp: tryApiGenerateBackground_def failureMessage_def
      split: provider_result.splits option.splits)

lemma handleGenerateBackground_provider_failure:
  assumes "httpMethod req = ''POST''" and "prompt req \<noteq> []" and "reqEmail req \<noteq> []"
    and "deductTransaction db (reqEmail req) 1 = Inr (db1, n)"
    and "GEMINI_API_KEY env \<noteq> [] \<or> API_KEY env \<noteq> []"
    and "failureMessage (generateContent env ''gemini-2.5-flash-image'' (prompt req)) = Some msg"
  shows "handleGenerateBackground db env req =
    \<lparr>reply = respond (if msg = ''Insufficient credits'' then 403 else 500)
       (Message (messageOrDefault msg)),
     store = (if refundCondition msg then refundIfExists db1 env (reqEmail req) else db1),
     providerCalls = [prompt req]\<rparr>"
  using assms(1-3) tryGenerateBackground_provider_failure [OF assms(4-6)]
  by (simp add: handleGenerateBackground_def catchGenerateBackground_def falsy_def Let_def)

lemma apiGenerateBackground_provider_failure:
  assumes "theme req \<noteq> []" and "reqEmail req \<noteq> []" and "API_KEY env \<noteq> []"
    and "deductTransaction db (reqEmail req) 1 = Inr (db1, n)"
    and "failureMessage (generateContent env ''gemini-2.5-flash-image''
      (backgroundPrompt (theme req))) = Some msg"
  shows "apiGenerateBackground db env req =
    \<lparr>reply = respond (if msg = ''Insufficient credits'' then 403 else 500)
       (Message (messageOrDefault msg)),
     store = (if apiRefundCondition msg then refundIncrement db1 env (reqEmail req) else db1),
     providerCalls = [backgroundPrompt (theme req)]\<rparr>"
  using assms(1-3) tryApiGenerateBackground_provider_failure [OF assms(4-5)]
  by (simp add: apiGenerateBackground_def catchApiGenerateBackground_def falsy_def Let_def)

text \<open>
  C4. After a successful reservation and a provider failure whose message meets the
  handler's refund condition, if the refund's storage call throws, the caller is answered
  with status 500 and the provider failure's own message, and the reservation stands. In
  general the response of either background handler does not depend on whether the refund's
  storage call throws.
\<close>

theorem refund_failure_keeps_provider_error:
  "(httpMethod req = ''POST'' \<and> prompt req \<noteq> [] \<and> reqEmail req \<noteq> [] \<and>
    (GEMINI_API_KEY env \<noteq> [] \<or> API_KEY env \<noteq> []) \<and>
    deductTransaction db (reqEmail req) 1 = Inr (db1, n) \<and>
    failureMessage (generateContent env ''gemini-2.5-flash-image'' (prompt req)) = Some msg \<and>
    refundCondition msg \<and> refundThrows env \<longrightarrow>
      handleGenerateBackground db env req =
        \<lparr>reply = respond 500 (Message msg), store = db1, providerCalls = [prompt req]\<rparr>) \<and>
   (theme req \<noteq> [] \<and> reqEmail req \<noteq> [] \<and> API_KEY env \<noteq> [] \<and>
    deductTransaction db (reqEmail req) 1 = Inr (db1, n) \<and>
    failureMessage (generateContent env ''gemini-2.5-flash-image''
      (backgroundPrompt (theme req))) = Some msg \<and>
    apiRefundCondition msg \<and> refundThrows env \<longrightarrow>
      apiGenerateBackground db env req =
        \<lparr>reply = respond 500 (Message msg), store = db1,
         providerCalls = [backgroundPrompt (theme req)]\<rparr>) \<and>
   reply (handleGenerateBackground db (env\<lparr>refundThrows := True\<rparr>) req) =
     reply (handleGenerateBackground db (env\<lparr>refundThrows := False\<rparr>) req) \<and>
   reply (apiGenerateBackground db (env\<lparr>refundThrows := True\<rparr>) req) =
     reply (apiGenerateBackground db (env\<lparr>refundThrows := False\<rparr>) req)"
proof (intro conjI impI)
  assume a: "httpMethod req = ''POST'' \<and> prompt req \<noteq> [] \<and> reqEmail req \<noteq> [] \<and>
    (GEMINI_API_KEY env \<noteq> [] \<or> API_KEY env \<noteq> []) \<and>
    deductTransaction db (reqEmail req) 1 = Inr (db1, n) \<and>
    failureMessage (generateContent env ''gemini-2.5-flash-image'' (prompt req)) = Some msg \<and>
    refundCondition msg \<and> refundThrows env"
  then have "handleGenerateBackground db env req =
    \<lparr>reply = respond (if msg = ''Insufficient credits'' then 403 else 500)
       (Message (messageOrDefault msg)),
     store = (if refundCondition msg then refundIfExists db1 env (reqEmail req) else db1),
     providerCalls = [prompt req]\<rparr>"
    by (intro handleGenerateBackground_provider_failure) simp_all
  with a refundCondition_message [of msg]
  show "handleGenerateBackground db env req =
      \<lparr>reply = respond 500 (Message msg), store = db1, providerCalls = [prompt req]\<rparr>"
    by (simp add: refundIfExists_def)
next
  assume a: "theme req \<noteq> [] \<and> reqEmail req \<noteq> [] \<and> API_KEY env \<noteq> [] \<and>
    deductTransaction db (reqEmail req) 1 = Inr (db1, n) \<and>
    failureMessage (generateContent env ''gemini-2.5-flash-image''
      (backgroundPrompt (theme req))) = Some msg \<and>
    apiRefundCondition msg \<and> refundThrows env"
  then have "apiGenerateBackground db env req =
    \<lparr>reply = respond (if msg = ''Insufficient credits'' then 403 else 500)
       (Message (messageOrDefault msg)),
     store = (if apiRefundCondition msg then refundIncrement db1 env (reqEmail req) else db1),
     providerCalls = [backgroundPrompt (theme req)]\<rparr>"
    by (intro apiGenerateBackground_provider_failure) simp_all
  with a apiRefundCondition_message [of msg]
  show "apiGenerateBackground db env req =
      \<lparr>reply = respond 500 (Message msg), store = db1,
       providerCalls = [backgroundPrompt (theme req)]\<rparr>"
    by (simp add: refundIncrement_def)
next
  show "reply (handleGenerateBackground db (env\<lparr>refundThrows := True\<rparr>) req) =
      reply (handleGenerateBackground db (env\<lparr>refundThrows := False\<rparr>) req)"
    by (simp add: handleGenerateBackground_def tryGenerateBackground_def
        catchGenerateBackground_def Let_def
        split: sum.splits prod.splits provider_result.splits option.splits)
next
  show "reply (apiGenerateBackground db (env\<lparr>refundThrows := True\<rparr>) req) =
      reply (apiGenerateBackground db (env\<lparr>refundThrows := False\<rparr>) req)"
    by (simp add: apiGenerateBackground_def tryApiGenerateBackground_def
        catchApiGenerateBackground_def Let_def
        split: sum.splits prod.splits provider_result.splits option.splits)
qed

theorem refund_failure_keeps_provider_error_witness:
  "handleGenerateBackground (sampleLedger MockStore 5)
       (sampleEnv (ProviderReturns emptyResponse) True) (sampleRequest ''POST'') =
     \<lparr>reply = respond 500 (Message ''AI returned no image''), store = sampleLedger MockStore 4,
      providerCalls = [''a hiker at dawn'']\<rparr> \<and>
   apiGenerateBackground (sampleLedger Firestore 5)
       (sampleEnv (ProviderReturns emptyResponse) True) (sampleRequest ''POST'') =
     \<lparr>reply = respond 500 (Message ''AI returned no image''), store = sampleLedger Firestore 4,
      providerCalls = [backgroundPrompt ''alpine sunrise'']\<rparr>"
proof -
  let ?env = "sampleEnv (ProviderReturns emptyResponse) True"
  let ?req = "sampleRequest ''POST''"
  have r: "httpMethod ?req = ''POST'' \<and> prompt ?req = ''a hiker at dawn'' \<and>
      theme ?req = ''alpine sunrise'' \<and> reqEmail ?req = ''a@x.com''"
    by (simp add: sampleRequest_def)
  have e: "GEMINI_API_KEY ?env \<noteq> [] \<and> API_KEY ?env \<noteq> [] \<and> refundThrows ?env"
    by (simp add: sampleEnv_def)
  have d: "deductTransaction (sampleLedger b 5) (reqEmail ?req) 1 =
      Inr (sampleLedger b 4, Num 4)" for b
    using r by (simp add: deductTransaction_sample)
  have f: "failureMessage (generateContent ?env m c) = Some ''AI returned no image''" for m c
    by (simp add: failureMessage_def sampleEnv_def emptyResponse_def extractImage_def)
  have c: "refundCondition ''AI returned no image'' \<and> apiRefundCondition ''AI returned no image''"
    by (simp add: refundCondition_def apiRefundCondition_def)
  from refund_failure_keeps_provider_error
      [of ?req ?env "sampleLedger MockStore 5" "sampleLedger MockStore 4" "Num 4"
        "''AI returned no image''"]
    r e d f c
  have A: "handleGenerateBackground (sampleLedger MockStore 5) ?env ?req =
      \<lparr>reply = respond 500 (Message ''AI returned no image''),
       store = sampleLedger MockStore 4, providerCalls = [''a hiker at dawn'']\<rparr>"
    by simp
  from refund_failure_keeps_provider_error
      [of ?req ?env "sampleLedger Firestore 5" "sampleLedger Firestore 4" "Num 4"
        "''AI returned no image''"]
    r e d f c
  have B: "apiGenerateBackground (sampleLedger Firestore 5) ?env ?req =
      \<lparr>reply = respond 500 (Message ''AI returned no image''),
       store = sampleLedger Firestore 4,
       providerCalls = [backgroundPrompt ''alpine sunrise'']\<rparr>"
    by simp
  from A B show ?thesis
    by simp
qed

section \<open>Metered generation: refund after provider failure\<close>

text \<open>
  When the reservation was taken from a stored document with a numeric balance, the
  message meets the refund condition and the refund's storage call succeeds, the
  collection is back to what it was before the request.
\<close>

lemma refund_restores_reservation:
  assumes "getDoc db e = Stored d" and "credits d = Num c"
    and "deductTransaction db e 1 = Inr (db1, n)" and "\<not> refundThrows env"
  shows "refundIfExists db1 env e = db" and "refundIncrement db1 env e = db"
proof -
  from assms(1-3) have db1: "db1 = writeDoc db e (d\<lparr>credits := Num (c - 1)\<rparr>)"
    by (auto simp: deductTransaction_def Let_def docExists_simps docData_simps
        split: if_splits)
  have restored: "d\<lparr>credits := Num c\<rparr> = d"
    using assms(2) by simp
  have "writeDoc db1 e d = db"
    unfolding db1 writeDoc_twice using assms(1) by (rule writeDoc_Stored_same)
  with assms(4) restored show "refundIfExists db1 env e = db" and "refundIncrement db1 env e = db"
    by (simp_all add: refundIfExists_def refundIncrement_def Let_def db1 getDoc_writeDoc_same
        docExists_simps docData_simps orZero_Num)
qed

lemma refunded_provider_failure_is_net_zero:
  assumes "httpMethod req = ''POST''" and "prompt req \<noteq> []" and "reqEmail req \<noteq> []"
    and "deductTransaction db (reqEmail req) 1 = Inr (db1, n)"
    and "GEMINI_API_KEY env \<noteq> [] \<or> API_KEY env \<noteq> []"
    and "failureMessage (generateContent env ''gemini-2.5-flash-image'' (prompt req)) = Some msg"
    and "refundCondition msg" and "\<not> refundThrows env"
    and "getDoc db (reqEmail req) = Stored d" and "credits d = Num c"
  shows "store (handleGenerateBackground db env req) = db"
  using handleGenerateBackground_provider_failure [OF assms(1-6)]
    refund_restores_reservation(1) [OF assms(9) assms(10) assms(4) assms(8)] assms(7)
  by simp

lemma api_refunded_provider_failure_is_net_zero:
  assumes "theme req \<noteq> []" and "reqEmail req \<noteq> []" and "API_KEY env \<noteq> []"
    and "deductTransaction db (reqEmail req) 1 = Inr (db1, n)"
    and "failureMessage (generateContent env ''gemini-2.5-flash-image''
      (backgroundPrompt (theme req))) = Some msg"
    and "apiRefundCondition msg" and "\<not> refundThrows env"
    and "getDoc db (reqEmail req) = Stored d" and "credits d = Num c"
  shows "store (apiGenerateBackground db env req) = db"
  using apiGenerateBackground_provider_failure [OF assms(1-5)]
    refund_restores_reservation(2) [OF assms(8) assms(9) assms(4) assms(7)] assms(6)
  by simp

text \<open>
  C1. Conservation under provider failure asks that every provider failure after a
  successful reservation be refunded. At the input below the provider call throws an
  error whose message is "fetch failed", and the refund's storage call would succeed.
  Neither background handler attempts the refund, on either store: the balance stays at
  4, one below the balance of 5 before the request, and the caller is answered 500.
\<close>

theorem provider_error_without_marker_is_not_refunded:
  "handleGenerateBackground (sampleLedger MockStore 5)
       (sampleEnv (ProviderThrows ''fetch failed'') False) (sampleRequest ''POST'') =
     \<lparr>reply = respond 500 (Message ''fetch failed''), store = sampleLedger MockStore 4,
      providerCalls = [''a hiker at dawn'']\<rparr> \<and>
   handleGenerateBackground (sampleLedger Firestore 5)
       (sampleEnv (ProviderThrows ''fetch failed'') False) (sampleRequest ''POST'') =
     \<lparr>reply = respond 500 (Message ''fetch failed''), store = sampleLedger Firestore 4,
      providerCalls = [''a hiker at dawn'']\<rparr> \<and>
   apiGenerateBackground (sampleLedger Firestore 5)
       (sampleEnv (ProviderThrows ''fetch failed'') False) (sampleRequest ''POST'') =
     \<lparr>reply = respond 500 (Message ''fetch failed''), store = sampleLedger Firestore 4,
      providerCalls = [backgroundPrompt ''alpine sunrise'']\<rparr> \<and>
   sampleLedger MockStore 4 \<noteq> sampleLedger MockStore 5 \<and>
   sampleLedger Firestore 4 \<noteq> sampleLedger Firestore 5"
proof -
  let ?env = "sampleEnv (ProviderThrows ''fetch failed'') False"
  let ?req = "sampleRequest ''POST''"
  have r: "reqEmail ?req = ''a@x.com''"
    by (simp add: sampleRequest_def)
  have d: "deductTransaction (sampleLedger b 5) (reqEmail ?req) 1 =
      Inr (sampleLedger b 4, Num 4)" for b
    using r by (simp add: deductTransaction_sample)
  have f: "failureMessage (generateContent ?env m c) = Some ''fetch failed''" for m c
    by (simp add: failureMessage_def sampleEnv_def)
  have c: "\<not> refundCondition ''fetch failed'' \<and> \<not> apiRefundCondition ''fetch failed''"
    by (simp add: refundCondition_def apiRefundCondition_def)
  have m: "messageOrDefault ''fetch failed'' = ''fetch failed''"
    by (simp add: messageOrDefault_def falsy_def)
  have dev: "handleGenerateBackground (sampleLedger b 5) ?env ?req =
      \<lparr>reply = respond 500 (Message ''fetch failed''), store = sampleLedger b 4,
       providerCalls = [prompt ?req]\<rparr>" for b
    using handleGenerateBackground_provider_failure [OF _ _ _ d _ f] c m
    by (simp add: sampleRequest_def sampleEnv_def)
  have api: "apiGenerateBackground (sampleLedger b 5) ?env ?req =
      \<lparr>reply = respond 500 (Message ''fetch failed''), store = sampleLedger b 4,
       providerCalls = [backgroundPrompt (theme ?req)]\<rparr>" for b
    using apiGenerateBackground_provider_failure [OF _ _ _ d f] c m
    by (simp add: sampleRequest_def sampleEnv_def)
  have ne: "sampleLedger b 4 \<noteq> sampleLedger b 5" for b
  proof
    assume "sampleLedger b 4 = sampleLedger b 5"
    then have "own (sampleLedger b 4) ''a@x.com'' = own (sampleLedger b 5) ''a@x.com''"
      by simp
    then show False
      by (simp add: sampleLedger_def sampleAccount_def)
  qed
  from dev api ne show ?thesis
    by (simp add: sampleRequest_def)
qed

end
